theory Spec2Isabelle
  imports Main
begin

section \<open>The storage gateway of \<^verbatim>\<open>services/gcp_toolkit.py\<close>\<close>

text \<open>
  The module authenticates against Google Cloud Storage with service-account credentials
  taken from the environment, and uploads a local file to a bucket. Everything it does
  beyond string handling goes through a library: \<^verbatim>\<open>json\<close>, \<^verbatim>\<open>google.oauth2\<close>,
  \<^verbatim>\<open>google.cloud.storage\<close>, \<^verbatim>\<open>mimetypes\<close>, \<^verbatim>\<open>logging\<close>. The libraries are not part
  of the repository: each library call is a parameter of the model, a function that
  returns what the call returns or the exception it raises. The log is a list of records,
  the calls made on storage objects are a trace, and the remote service is an opaque
  state that only the transfer reads and writes.
\<close>

subsection \<open>Exceptions, log records, environment\<close>

text \<open>
  An instance of Python's \<^verbatim>\<open>Exception\<close>: the name of its class and the text \<^verbatim>\<open>str(e)\<close>
  that an f-string prints. A Python call returns a value (\<open>Inr\<close>) or raises (\<open>Inl\<close>).
\<close>

datatype py_exception = PyException (exc_class: string) (exc_str: string)

datatype log_level = INFO | WARNING | ERROR

type_synonym log_record = "log_level \<times> string"

text \<open>\<^verbatim>\<open>os.environ\<close>: \<^verbatim>\<open>os.getenv(k)\<close> is the value of \<open>k\<close>, or \<^verbatim>\<open>None\<close>.\<close>

type_synonym environ = "string \<rightharpoonup> string"

definition getenv :: "environ \<Rightarrow> string \<Rightarrow> string option" where
  "getenv env k = env k"

text \<open>
  Truth value of a Python object that is a \<^verbatim>\<open>str\<close> or \<^verbatim>\<open>None\<close>: \<^verbatim>\<open>None\<close> and the empty
  string are false.
\<close>

definition truthy :: "string option \<Rightarrow> bool" where
  "truthy v = (case v of None \<Rightarrow> False | Some s \<Rightarrow> s \<noteq> [])"

text \<open>What an f-string prints for a \<^verbatim>\<open>str\<close> or \<^verbatim>\<open>None\<close>.\<close>

definition py_str :: "string option \<Rightarrow> string" where
  "py_str v = (case v of None \<Rightarrow> ''None'' | Some s \<Rightarrow> s)"

subsection \<open>The process state\<close>

text \<open>
  A call made on an object of the storage library, with its arguments:
  \<^verbatim>\<open>gcs_client.bucket(bucket_name)\<close>, \<^verbatim>\<open>bucket.blob(name)\<close>,
  \<^verbatim>\<open>blob.content_type = content_type\<close>, \<^verbatim>\<open>blob.upload_from_filename(file_path)\<close>.
\<close>

datatype sdk_call =
    Bucket_call "string option"
  | Blob_call string
  | Set_content_type string
  | Upload_from_filename string

text \<open>
  The module's globals \<^verbatim>\<open>GCP_BUCKET_NAME\<close> and \<^verbatim>\<open>gcs_client\<close>, what \<^verbatim>\<open>logger\<close> has
  written, the calls made on storage objects, and the state of the remote service.
  \<^verbatim>\<open>gcs_client\<close> is \<^verbatim>\<open>None\<close> or a \<^verbatim>\<open>storage.Client\<close>; a client object is true in
  \<^verbatim>\<open>if not gcs_client\<close>.
\<close>

record ('c, 'w) process =
  GCP_BUCKET_NAME :: "string option"
  gcs_client :: "'c option"
  logger :: "log_record list"
  sdk_calls :: "sdk_call list"
  world :: 'w

definition log_msg :: "log_level \<Rightarrow> string \<Rightarrow> ('c, 'w) process \<Rightarrow> ('c, 'w) process" where
  "log_msg lvl msg s = s\<lparr>logger := logger s @ [(lvl, msg)]\<rparr>"

definition record_call :: "sdk_call \<Rightarrow> ('c, 'w) process \<Rightarrow> ('c, 'w) process" where
  "record_call c s = s\<lparr>sdk_calls := sdk_calls s @ [c]\<rparr>"

subsection \<open>Gateway initialization\<close>

text \<open>
  The three library calls of \<^verbatim>\<open>initialize_gcp_client\<close>: \<^verbatim>\<open>json.loads\<close>,
  \<^verbatim>\<open>service_account.Credentials.from_service_account_info(info, scopes=...)\<close> and
  \<^verbatim>\<open>storage.Client(credentials=...)\<close>.
\<close>

record ('j, 'k, 'c) auth_lib =
  json_loads :: "string \<Rightarrow> py_exception + 'j"
  from_service_account_info :: "'j \<Rightarrow> string list \<Rightarrow> py_exception + 'k"
  storage_Client :: "'k \<Rightarrow> py_exception + 'c"

definition GCS_SCOPES :: "string list" where
  "GCS_SCOPES = [''https://www.googleapis.com/auth/devstorage.full_control'']"

text \<open>The body of the \<^verbatim>\<open>try\<close> of \<^verbatim>\<open>initialize_gcp_client\<close> (lines 46 to 51).\<close>

definition build_client :: "('j, 'k, 'c) auth_lib \<Rightarrow> string \<Rightarrow> py_exception + 'c" where
  "build_client A creds =
     (case json_loads A creds of
        Inl e \<Rightarrow> Inl e
      | Inr credentials_info \<Rightarrow>
          (case from_service_account_info A credentials_info GCS_SCOPES of
             Inl e \<Rightarrow> Inl e
           | Inr gcs_credentials \<Rightarrow> storage_Client A gcs_credentials))"

text \<open>
  \<^verbatim>\<open>initialize_gcp_client()\<close>: the value returned or the exception raised, and the log
  after the call. \<^verbatim>\<open>not GCP_SA_CREDENTIALS\<close> holds of \<^verbatim>\<open>None\<close> and of the empty
  string. \<^verbatim>\<open>except Exception as e\<close> logs \<^verbatim>\<open>f"Failed to initialize GCS client: {e}"\<close>
  and returns \<^verbatim>\<open>None\<close>.
\<close>

definition initialize_gcp_client ::
  "('j, 'k, 'c) auth_lib \<Rightarrow> environ \<Rightarrow> log_record list \<Rightarrow> (py_exception + 'c option) \<times> log_record list"
where
  "initialize_gcp_client A env lg =
     (case getenv env ''GCP_SA_CREDENTIALS'' of
        None \<Rightarrow> (Inr None, lg)
      | Some GCP_SA_CREDENTIALS \<Rightarrow>
          if GCP_SA_CREDENTIALS = [] then (Inr None, lg)
          else
            (case build_client A GCP_SA_CREDENTIALS of
               Inr client \<Rightarrow> (Inr (Some client), lg)
             | Inl e \<Rightarrow>
                 (Inr None, lg @ [(ERROR, ''Failed to initialize GCS client: '' @ exc_str e)])))"

text \<open>
  Importing the module (lines 31, 33 and 57): the default bucket is read from the
  environment and \<^verbatim>\<open>gcs_client\<close> is assigned the result of \<^verbatim>\<open>initialize_gcp_client()\<close>.
  If that call raised, the import would raise and there would be no module.
\<close>

definition module_import ::
  "('j, 'k, 'c) auth_lib \<Rightarrow> environ \<Rightarrow> 'w \<Rightarrow> py_exception + ('c, 'w) process"
where
  "module_import A env w =
     (case initialize_gcp_client A env [] of
        (Inl e, lg) \<Rightarrow> Inl e
      | (Inr client, lg) \<Rightarrow>
          Inr \<lparr>GCP_BUCKET_NAME = getenv env ''GCP_BUCKET_NAME'', gcs_client = client,
               logger = lg, sdk_calls = [], world = w\<rparr>)"

subsection \<open>Content-type inference\<close>

text \<open>
  \<^verbatim>\<open>mimetypes.guess_type(file_path)\<close> is the standard library's lookup, over tables that
  it loads from the host. It is a parameter: a function from the path to the pair
  \<^verbatim>\<open>(type, encoding)\<close> that the call returns, each component a string or \<^verbatim>\<open>None\<close>, or to
  the exception that the call raises.
\<close>

type_synonym mimetypes = "string \<Rightarrow> py_exception + (string option \<times> string option)"

text \<open>
  \<^verbatim>\<open>guess_content_type(file_path)\<close> (lines 59 to 74): the first component of the lookup,
  with a warning when it is \<^verbatim>\<open>None\<close> or empty. The function has no \<^verbatim>\<open>try\<close>: what the
  lookup raises, it raises.
\<close>

definition guess_content_type ::
  "mimetypes \<Rightarrow> string \<Rightarrow> ('c, 'w) process \<Rightarrow> (py_exception + string option) \<times> ('c, 'w) process"
where
  "guess_content_type guess_type file_path s =
     (case guess_type file_path of
        Inl e \<Rightarrow> (Inl e, s)
      | Inr (content_type, _) \<Rightarrow>
          (Inr content_type,
           if \<not> truthy content_type
           then log_msg WARNING
                  (''Could not determine content type for '' @ file_path @
                   '', this may default to application/octet-stream'') s
           else s))"

subsection \<open>The upload operation\<close>

text \<open>
  \<^verbatim>\<open>os.path.basename\<close> of a POSIX path (the module's \<^verbatim>\<open>STORAGE_PATH\<close> is \<^verbatim>\<open>/tmp/\<close>):
  what follows the last \<^verbatim>\<open>/\<close>, the whole path when it has none.
\<close>

definition basename :: "string \<Rightarrow> string" where
  "basename p = rev (takeWhile (\<lambda>c. c \<noteq> CHR ''/'') (rev p))"

text \<open>
  The storage library, over its own objects: a client \<open>'c\<close>, a bucket \<open>'b\<close>, a blob
  \<open>'o\<close>. \<^verbatim>\<open>gcs_client.bucket(name)\<close> and \<^verbatim>\<open>bucket.blob(name)\<close> return an object or
  raise; assigning \<^verbatim>\<open>blob.content_type\<close> gives the blob with that attribute;
  \<^verbatim>\<open>blob.upload_from_filename(path)\<close> is the transfer, which reads and writes the remote
  service and returns or raises; \<^verbatim>\<open>blob.public_url\<close> is a property of the blob.
\<close>

record ('c, 'b, 'o, 'w) storage_lib =
  client_bucket :: "'c \<Rightarrow> string option \<Rightarrow> py_exception + 'b"
  bucket_blob :: "'b \<Rightarrow> string \<Rightarrow> py_exception + 'o"
  set_content_type :: "'o \<Rightarrow> string \<Rightarrow> 'o"
  upload_from_filename :: "'o \<Rightarrow> string \<Rightarrow> 'w \<Rightarrow> (py_exception + unit) \<times> 'w"
  public_url :: "'o \<Rightarrow> string"

text \<open>Lines 92 and 93: \<^verbatim>\<open>if content_type: blob.content_type = content_type\<close>.\<close>

definition attach_content_type ::
  "('c, 'b, 'o, 'w) storage_lib \<Rightarrow> 'o \<Rightarrow> string option \<Rightarrow> ('c, 'w) process \<Rightarrow> 'o \<times> ('c, 'w) process"
where
  "attach_content_type S blob content_type s =
     (case content_type of
        None \<Rightarrow> (blob, s)
      | Some ct \<Rightarrow>
          if ct = [] then (blob, s)
          else (set_content_type S blob ct, record_call (Set_content_type ct) s))"

text \<open>Lines 95 to 97: the transfer, the log record of success, the returned URL.\<close>

definition transfer ::
  "('c, 'b, 'o, 'w) storage_lib \<Rightarrow> 'o \<Rightarrow> string \<Rightarrow> ('c, 'w) process \<Rightarrow> (py_exception + string) \<times> ('c, 'w) process"
where
  "transfer S blob file_path s =
     (let s1 = record_call (Upload_from_filename file_path) s in
      case upload_from_filename S blob file_path (world s1) of
        (Inl e, w) \<Rightarrow> (Inl e, s1\<lparr>world := w\<rparr>)
      | (Inr _, w) \<Rightarrow>
          (Inr (public_url S blob),
           log_msg INFO (''File uploaded successfully to GCS: '' @ public_url S blob)
             (s1\<lparr>world := w\<rparr>)))"

text \<open>Lines 88 to 97: bucket, blob named by the base name, content type, transfer.\<close>

definition upload_blob ::
  "('c, 'b, 'o, 'w) storage_lib \<Rightarrow> 'c \<Rightarrow> string \<Rightarrow> string option \<Rightarrow> string option \<Rightarrow>
   ('c, 'w) process \<Rightarrow> (py_exception + string) \<times> ('c, 'w) process"
where
  "upload_blob S client file_path bucket_name content_type s =
     (let s1 = record_call (Bucket_call bucket_name) s in
      case client_bucket S client bucket_name of
        Inl e \<Rightarrow> (Inl e, s1)
      | Inr bucket \<Rightarrow>
          (let s2 = record_call (Blob_call (basename file_path)) s1 in
           case bucket_blob S bucket (basename file_path) of
             Inl e \<Rightarrow> (Inl e, s2)
           | Inr blob \<Rightarrow>
               (case attach_content_type S blob content_type s2 of
                  (blob', s3) \<Rightarrow> transfer S blob' file_path s3)))"

text \<open>Lines 84 to 86: the two \<^verbatim>\<open>logger.info\<close> calls before the bucket is taken.\<close>

definition log_upload_start :: "string \<Rightarrow> string option \<Rightarrow> ('c, 'w) process \<Rightarrow> ('c, 'w) process" where
  "log_upload_start file_path content_type s =
     (let s1 = log_msg INFO (''Uploading file to Google Cloud Storage: '' @ file_path) s in
      if truthy content_type
      then log_msg INFO (''Using content type: '' @ py_str content_type) s1
      else s1)"

text \<open>The body of the \<^verbatim>\<open>try\<close> of \<^verbatim>\<open>upload_to_gcs\<close> (lines 81 to 97).\<close>

definition upload_try_body ::
  "mimetypes \<Rightarrow> ('c, 'b, 'o, 'w) storage_lib \<Rightarrow> 'c \<Rightarrow> string \<Rightarrow> string option \<Rightarrow>
   ('c, 'w) process \<Rightarrow> (py_exception + string) \<times> ('c, 'w) process"
where
  "upload_try_body guess_type S client file_path bucket_name s =
     (case guess_content_type guess_type file_path s of
        (Inl e, s1) \<Rightarrow> (Inl e, s1)
      | (Inr content_type, s1) \<Rightarrow>
          upload_blob S client file_path bucket_name content_type
            (log_upload_start file_path content_type s1))"

definition not_initialized :: py_exception where
  "not_initialized =
     PyException ''ValueError'' ''GCS client is not initialized. Skipping file upload.''"

text \<open>
  \<^verbatim>\<open>upload_to_gcs(file_path, bucket_name=GCP_BUCKET_NAME)\<close>. The second argument is
  \<open>None\<close> when the caller passes no bucket, and then the parameter takes the default,
  the value that \<^verbatim>\<open>GCP_BUCKET_NAME\<close> had when the module was imported; a caller may
  also pass \<^verbatim>\<open>None\<close> itself (\<open>Some None\<close>). The \<^verbatim>\<open>raise ValueError\<close> of line 78 is
  outside the \<^verbatim>\<open>try\<close>. \<^verbatim>\<open>except Exception as e\<close> logs
  \<^verbatim>\<open>f"Error uploading file to GCS: {e}"\<close> and raises \<open>e\<close> again.
\<close>

definition upload_to_gcs ::
  "mimetypes \<Rightarrow> ('c, 'b, 'o, 'w) storage_lib \<Rightarrow> string \<Rightarrow> string option option \<Rightarrow>
   ('c, 'w) process \<Rightarrow> (py_exception + string) \<times> ('c, 'w) process"
where
  "upload_to_gcs guess_type S file_path bucket_arg s =
     (let bucket_name = (case bucket_arg of None \<Rightarrow> GCP_BUCKET_NAME s | Some b \<Rightarrow> b) in
      case gcs_client s of
        None \<Rightarrow> (Inl not_initialized, s)
      | Some client \<Rightarrow>
          (case upload_try_body guess_type S client file_path bucket_name s of
             (Inr url, s') \<Rightarrow> (Inr url, s')
           | (Inl e, s') \<Rightarrow>
               (Inl e, log_msg ERROR (''Error uploading file to GCS: '' @ exc_str e) s')))"

subsection \<open>Sequences of calls\<close>

text \<open>
  What a caller can do with the module after importing it: call any of its three
  functions, in any order, catching what they raise. \<^verbatim>\<open>initialize_gcp_client\<close> reads the
  environment of the moment of the call.
\<close>

datatype op =
    Call_initialize environ
  | Call_guess string
  | Call_upload string "string option option"

datatype 'c outcome =
    Initialized "py_exception + 'c option"
  | Guessed "py_exception + string option"
  | Uploaded "py_exception + string"

definition run_op ::
  "('j, 'k, 'c) auth_lib \<Rightarrow> mimetypes \<Rightarrow> ('c, 'b, 'o, 'w) storage_lib \<Rightarrow> op \<Rightarrow>
   ('c, 'w) process \<Rightarrow> 'c outcome \<times> ('c, 'w) process"
where
  "run_op A guess_type S x s =
     (case x of
        Call_initialize env \<Rightarrow>
          (case initialize_gcp_client A env (logger s) of
             (r, lg) \<Rightarrow> (Initialized r, s\<lparr>logger := lg\<rparr>))
      | Call_guess file_path \<Rightarrow>
          (case guess_content_type guess_type file_path s of
             (r, s') \<Rightarrow> (Guessed r, s'))
      | Call_upload file_path bucket_arg \<Rightarrow>
          (case upload_to_gcs guess_type S file_path bucket_arg s of
             (r, s') \<Rightarrow> (Uploaded r, s')))"

fun run_ops ::
  "('j, 'k, 'c) auth_lib \<Rightarrow> mimetypes \<Rightarrow> ('c, 'b, 'o, 'w) storage_lib \<Rightarrow> op list \<Rightarrow>
   ('c, 'w) process \<Rightarrow> 'c outcome list \<times> ('c, 'w) process"
where
  "run_ops A guess_type S [] s = ([], s)"
| "run_ops A guess_type S (x # xs) s =
     (case run_op A guess_type S x s of
        (r, s') \<Rightarrow>
          (case run_ops A guess_type S xs s' of
             (rs, s'') \<Rightarrow> (r # rs, s'')))"

subsection \<open>Reading a run\<close>

text \<open>
  The blob on which the transfer runs: the blob as \<^verbatim>\<open>bucket.blob\<close> returned it, with the
  content type assigned when there is one (the object part of \<open>attach_content_type\<close>).
\<close>

definition with_content_type :: "('c, 'b, 'o, 'w) storage_lib \<Rightarrow> 'o \<Rightarrow> string option \<Rightarrow> 'o" where
  "with_content_type S blob content_type =
     (case content_type of
        None \<Rightarrow> blob
      | Some ct \<Rightarrow> if ct = [] then blob else set_content_type S blob ct)"

text \<open>Projections of the trace: the transfers, the object names, the bucket names.\<close>

fun is_transfer :: "sdk_call \<Rightarrow> bool" where
  "is_transfer (Upload_from_filename p) = True"
| "is_transfer _ = False"


fun bucket_names :: "sdk_call list \<Rightarrow> string option list" where
  "bucket_names [] = []"
| "bucket_names (Bucket_call b # cs) = b # bucket_names cs"
| "bucket_names (_ # cs) = bucket_names cs"

text \<open>The text of the exception that a call raised, if it raised.\<close>

definition raised_message :: "py_exception + 'a \<Rightarrow> string option" where
  "raised_message r = (case r of Inl e \<Rightarrow> Some (exc_str e) | Inr _ \<Rightarrow> None)"


subsection \<open>A small instance of the libraries\<close>

text \<open>
  Concrete libraries on which the functions can be evaluated. The JSON parser accepts
  texts that open a brace, the credentials constructor rejects the empty object, the type
  lookup knows \<^verbatim>\<open>.pdf\<close> and raises on a path that opens \<^verbatim>\<open>//[\<close>. A blob is the triple of
  its bucket, its name and its content type; the remote service is the list of objects
  written, the newest first; the bucket \<^verbatim>\<open>locked\<close> refuses every transfer.
\<close>

type_synonym demo_blob = "string option \<times> string \<times> string option"

type_synonym demo_world = "((string option \<times> string) \<times> string) list"

definition demo_auth :: "(string, string, string) auth_lib" where
  "demo_auth =
     \<lparr>json_loads = (\<lambda>txt. if take 1 txt = ''{'' then Inr txt
                          else Inl (PyException ''JSONDecodeError'' ''Expecting value'')),
      from_service_account_info = (\<lambda>info scopes. if info = ''{}''
                          then Inl (PyException ''MalformedError'' ''missing fields'')
                          else Inr info),
      storage_Client = (\<lambda>k. Inr k)\<rparr>"

definition demo_mimetypes :: mimetypes where
  "demo_mimetypes p =
     (if take 3 p = ''//['' then Inl (PyException ''ValueError'' ''Invalid IPv6 URL'')
      else if drop (length p - 4) p = ''.pdf'' then Inr (Some ''application/pdf'', None)
      else Inr (None, None))"

definition demo_storage :: "(string, string option, demo_blob, demo_world) storage_lib" where
  "demo_storage =
     \<lparr>client_bucket = (\<lambda>c b. Inr b),
      bucket_blob = (\<lambda>b k. Inr (b, k, None)),
      set_content_type = (\<lambda>blob ct. (fst blob, fst (snd blob), Some ct)),
      upload_from_filename = (\<lambda>blob p w.
         if fst blob = Some ''locked''
         then (Inl (PyException ''Forbidden'' ''403 access denied''), w)
         else (Inr (), ((fst blob, fst (snd blob)), p) # w)),
      public_url = (\<lambda>blob.
         ''https://storage.googleapis.com/'' @ py_str (fst blob) @ ''/'' @ fst (snd blob))\<rparr>"

definition demo_process :: "string option \<Rightarrow> (string, demo_world) process" where
  "demo_process client =
     \<lparr>GCP_BUCKET_NAME = Some ''media'', gcs_client = client, logger = [], sdk_calls = [],
      world = []\<rparr>"

section \<open>Properties\<close>

subsection \<open>Auxiliary facts\<close>


lemmas demo_defs = demo_mimetypes_def demo_storage_def demo_process_def demo_auth_def


lemma bucket_names_append: "bucket_names (xs @ ys) = bucket_names xs @ bucket_names ys"
  by (induction xs rule: bucket_names.induct) simp_all



paragraph \<open>Initialization\<close>

lemma build_client_raises:
  "json_loads A creds = Inl e \<Longrightarrow> build_client A creds = Inl e"
  "json_loads A creds = Inr info \<Longrightarrow> from_service_account_info A info GCS_SCOPES = Inl e \<Longrightarrow>
     build_client A creds = Inl e"
  "json_loads A creds = Inr info \<Longrightarrow> from_service_account_info A info GCS_SCOPES = Inr k \<Longrightarrow>
     storage_Client A k = Inl e \<Longrightarrow> build_client A creds = Inl e"
  by (simp_all add: build_client_def)

lemma initialize_absent:
  "getenv env ''GCP_SA_CREDENTIALS'' = None \<Longrightarrow> initialize_gcp_client A env lg = (Inr None, lg)"
  by (simp add: initialize_gcp_client_def)

lemma initialize_empty:
  "getenv env ''GCP_SA_CREDENTIALS'' = Some [] \<Longrightarrow> initialize_gcp_client A env lg = (Inr None, lg)"
  by (simp add: initialize_gcp_client_def)

lemma initialize_failed:
  "getenv env ''GCP_SA_CREDENTIALS'' = Some creds \<Longrightarrow> creds \<noteq> [] \<Longrightarrow>
   build_client A creds = Inl e \<Longrightarrow>
   initialize_gcp_client A env lg =
     (Inr None, lg @ [(ERROR, ''Failed to initialize GCS client: '' @ exc_str e)])"
  by (simp add: initialize_gcp_client_def)

lemma initialize_returns:
  "\<exists>client. fst (initialize_gcp_client A env lg) = Inr client"
  by (simp add: initialize_gcp_client_def split: option.splits sum.splits)

lemma module_import_returns: "\<exists>s. module_import A env w = Inr s"
  using initialize_returns [of A env "[]"]
  by (cases "initialize_gcp_client A env []") (auto simp: module_import_def)

lemma module_import_bucket:
  "module_import A env w = Inr s \<Longrightarrow> GCP_BUCKET_NAME s = getenv env ''GCP_BUCKET_NAME''"
  by (cases "initialize_gcp_client A env []")
     (auto simp: module_import_def split: sum.splits)

paragraph \<open>Content type\<close>

lemma guess_returns:
  "gt p = Inr (ct, enc) \<Longrightarrow>
   guess_content_type gt p s =
     (Inr ct,
      if truthy ct then s
      else log_msg WARNING
             (''Could not determine content type for '' @ p @
              '', this may default to application/octet-stream'') s)"
  by (simp add: guess_content_type_def)

lemma guess_raises: "gt p = Inl e \<Longrightarrow> guess_content_type gt p s = (Inl e, s)"
  by (simp add: guess_content_type_def)

lemma guess_fields:
  "gcs_client (snd (guess_content_type gt p s)) = gcs_client s"
  "GCP_BUCKET_NAME (snd (guess_content_type gt p s)) = GCP_BUCKET_NAME s"
  "sdk_calls (snd (guess_content_type gt p s)) = sdk_calls s"
  "world (snd (guess_content_type gt p s)) = world s"
  by (simp_all add: guess_content_type_def log_msg_def split: sum.splits prod.splits)

lemma guess_logger:
  "gt p = Inr (ct, enc) \<Longrightarrow>
   logger (snd (guess_content_type gt p s)) =
     logger s @
     (if truthy ct then []
      else [(WARNING, ''Could not determine content type for '' @ p @
                      '', this may default to application/octet-stream'')])"
  by (simp add: guess_returns log_msg_def)

paragraph \<open>The steps of the upload\<close>

lemma attach_fst: "fst (attach_content_type S bl ct s) = with_content_type S bl ct"
  by (simp add: attach_content_type_def with_content_type_def split: option.splits)

lemma attach_fields:
  "gcs_client (snd (attach_content_type S bl ct s)) = gcs_client s"
  "GCP_BUCKET_NAME (snd (attach_content_type S bl ct s)) = GCP_BUCKET_NAME s"
  "logger (snd (attach_content_type S bl ct s)) = logger s"
  "world (snd (attach_content_type S bl ct s)) = world s"
  "filter is_transfer (sdk_calls (snd (attach_content_type S bl ct s))) =
     filter is_transfer (sdk_calls s)"
  by (simp_all add: attach_content_type_def record_call_def split: option.splits)

lemma attach_calls:
  "sdk_calls (snd (attach_content_type S bl ct s)) =
     sdk_calls s @ (if truthy ct then [Set_content_type (py_str ct)] else [])"
  by (simp add: attach_content_type_def record_call_def truthy_def py_str_def
        split: option.splits)

lemma start_fields:
  "gcs_client (log_upload_start p ct s) = gcs_client s"
  "GCP_BUCKET_NAME (log_upload_start p ct s) = GCP_BUCKET_NAME s"
  "sdk_calls (log_upload_start p ct s) = sdk_calls s"
  "world (log_upload_start p ct s) = world s"
  by (simp_all add: log_upload_start_def log_msg_def Let_def)

lemma start_logger:
  "logger (log_upload_start p ct s) =
     logger s @ [(INFO, ''Uploading file to Google Cloud Storage: '' @ p)] @
     (if truthy ct then [(INFO, ''Using content type: '' @ py_str ct)] else [])"
  by (simp add: log_upload_start_def log_msg_def Let_def)

lemma transfer_fst:
  "fst (transfer S blob p s) =
     (case fst (upload_from_filename S blob p (world s)) of
        Inl e \<Rightarrow> Inl e
      | Inr _ \<Rightarrow> Inr (public_url S blob))"
  by (simp add: transfer_def record_call_def Let_def split: prod.splits sum.splits)

lemma transfer_fields:
  "gcs_client (snd (transfer S blob p s)) = gcs_client s"
  "GCP_BUCKET_NAME (snd (transfer S blob p s)) = GCP_BUCKET_NAME s"
  "world (snd (transfer S blob p s)) = snd (upload_from_filename S blob p (world s))"
  "sdk_calls (snd (transfer S blob p s)) = sdk_calls s @ [Upload_from_filename p]"
  by (simp_all add: transfer_def record_call_def log_msg_def Let_def
        split: prod.splits sum.splits)

lemma transfer_logger:
  "logger (snd (transfer S blob p s)) =
     logger s @
     (case fst (upload_from_filename S blob p (world s)) of
        Inl e \<Rightarrow> []
      | Inr _ \<Rightarrow> [(INFO, ''File uploaded successfully to GCS: '' @ public_url S blob)])"
  by (simp add: transfer_def record_call_def log_msg_def Let_def split: prod.splits sum.splits)

lemma upload_blob_bucket_raises:
  "client_bucket S c bn = Inl e \<Longrightarrow>
   upload_blob S c p bn ct s = (Inl e, record_call (Bucket_call bn) s)"
  by (simp add: upload_blob_def)

lemma upload_blob_blob_raises:
  "client_bucket S c bn = Inr bk \<Longrightarrow> bucket_blob S bk (basename p) = Inl e \<Longrightarrow>
   upload_blob S c p bn ct s =
     (Inl e, record_call (Blob_call (basename p)) (record_call (Bucket_call bn) s))"
  by (simp add: upload_blob_def)

lemma upload_blob_transfer:
  "client_bucket S c bn = Inr bk \<Longrightarrow> bucket_blob S bk (basename p) = Inr bl \<Longrightarrow>
   upload_blob S c p bn ct s =
     transfer S (with_content_type S bl ct) p
       (snd (attach_content_type S bl ct
          (record_call (Blob_call (basename p)) (record_call (Bucket_call bn) s))))"
  by (simp add: upload_blob_def split_beta attach_fst)

text \<open>
  The three ways through \<open>upload_blob\<close>: the bucket call raises, the blob call raises,
  or the transfer is reached.
\<close>

lemma upload_blob_cases:
  obtains (bucket) e where "client_bucket S c bn = Inl e"
  | (blob) bk e where "client_bucket S c bn = Inr bk" "bucket_blob S bk (basename p) = Inl e"
  | (transfer) bk bl where "client_bucket S c bn = Inr bk" "bucket_blob S bk (basename p) = Inr bl"
proof (cases "client_bucket S c bn")
  case (Inl e)
  then show ?thesis by (rule bucket)
next
  case (Inr bk)
  then show ?thesis
    by (cases "bucket_blob S bk (basename p)") (auto intro: blob transfer)
qed

lemma upload_blob_globals:
  "gcs_client (snd (upload_blob S c p bn ct s)) = gcs_client s \<and>
   GCP_BUCKET_NAME (snd (upload_blob S c p bn ct s)) = GCP_BUCKET_NAME s"
proof (cases rule: upload_blob_cases [where S = S and c = c and bn = bn and p = p])
  case (bucket e)
  then show ?thesis by (simp add: upload_blob_bucket_raises record_call_def)
next
  case (blob bk e)
  then show ?thesis by (simp add: upload_blob_blob_raises record_call_def)
next
  case (transfer bk bl)
  then show ?thesis
    by (simp add: upload_blob_transfer transfer_fields attach_fields record_call_def)
qed

lemma upload_blob_logger:
  "logger (snd (upload_blob S c p bn ct s)) =
     logger s @
     (case fst (upload_blob S c p bn ct s) of
        Inl e \<Rightarrow> []
      | Inr url \<Rightarrow> [(INFO, ''File uploaded successfully to GCS: '' @ url)])"
proof (cases rule: upload_blob_cases [where S = S and c = c and bn = bn and p = p])
  case (bucket e)
  then show ?thesis by (simp add: upload_blob_bucket_raises record_call_def)
next
  case (blob bk e)
  then show ?thesis by (simp add: upload_blob_blob_raises record_call_def)
next
  case (transfer bk bl)
  then show ?thesis
    by (simp add: upload_blob_transfer transfer_logger transfer_fst attach_fields
          record_call_def split: sum.splits)
qed

lemma upload_blob_bucket_names:
  "bucket_names (sdk_calls (snd (upload_blob S c p bn ct s))) =
     bucket_names (sdk_calls s) @ [bn]"
proof (cases rule: upload_blob_cases [where S = S and c = c and bn = bn and p = p])
  case (bucket e)
  then show ?thesis
    by (simp add: upload_blob_bucket_raises record_call_def bucket_names_append)
next
  case (blob bk e)
  then show ?thesis
    by (simp add: upload_blob_blob_raises record_call_def bucket_names_append)
next
  case (transfer bk bl)
  then show ?thesis
    by (simp add: upload_blob_transfer transfer_fields attach_calls record_call_def
          bucket_names_append)
qed


paragraph \<open>The upload\<close>

lemma try_body_raises:
  "gt p = Inl e \<Longrightarrow> upload_try_body gt S c p bn s = (Inl e, s)"
  by (simp add: upload_try_body_def guess_raises)

lemma try_body_returns:
  "gt p = Inr (ct, enc) \<Longrightarrow>
   upload_try_body gt S c p bn s =
     upload_blob S c p bn ct (log_upload_start p ct (snd (guess_content_type gt p s)))"
  by (simp add: upload_try_body_def guess_returns)

lemma try_body_globals:
  "gcs_client (snd (upload_try_body gt S c p bn s)) = gcs_client s \<and>
   GCP_BUCKET_NAME (snd (upload_try_body gt S c p bn s)) = GCP_BUCKET_NAME s"
proof (cases "gt p")
  case (Inl e)
  then show ?thesis by (simp add: try_body_raises)
next
  case (Inr r)
  then have "gt p = Inr (fst r, snd r)" by simp
  then show ?thesis
    by (simp only: try_body_returns upload_blob_globals start_fields guess_fields)
qed


lemma disabled_upload_eq:
  "gcs_client s = None \<Longrightarrow> upload_to_gcs gt S p b s = (Inl not_initialized, s)"
  by (simp add: upload_to_gcs_def)

lemma enabled_upload_eq:
  "gcs_client s = Some c \<Longrightarrow>
   upload_to_gcs gt S p b s =
     (case upload_try_body gt S c p (case b of None \<Rightarrow> GCP_BUCKET_NAME s | Some x \<Rightarrow> x) s of
        (Inr url, s') \<Rightarrow> (Inr url, s')
      | (Inl e, s') \<Rightarrow> (Inl e, log_msg ERROR (''Error uploading file to GCS: '' @ exc_str e) s'))"
  by (simp add: upload_to_gcs_def)

lemma enabled_upload_fst:
  "gcs_client s = Some c \<Longrightarrow>
   fst (upload_to_gcs gt S p b s) =
     fst (upload_try_body gt S c p (case b of None \<Rightarrow> GCP_BUCKET_NAME s | Some x \<Rightarrow> x) s)"
  by (simp add: enabled_upload_eq split: prod.splits sum.splits)

lemma enabled_upload_snd:
  "gcs_client s = Some c \<Longrightarrow>
   snd (upload_to_gcs gt S p b s) =
     (case fst (upload_try_body gt S c p (case b of None \<Rightarrow> GCP_BUCKET_NAME s | Some x \<Rightarrow> x) s) of
        Inr url \<Rightarrow>
          snd (upload_try_body gt S c p (case b of None \<Rightarrow> GCP_BUCKET_NAME s | Some x \<Rightarrow> x) s)
      | Inl e \<Rightarrow>
          log_msg ERROR (''Error uploading file to GCS: '' @ exc_str e)
            (snd (upload_try_body gt S c p (case b of None \<Rightarrow> GCP_BUCKET_NAME s | Some x \<Rightarrow> x) s)))"
  by (simp add: enabled_upload_eq split: prod.splits sum.splits)

lemma enabled_upload_fields:
  "gcs_client s = Some c \<Longrightarrow>
   sdk_calls (snd (upload_to_gcs gt S p b s)) =
     sdk_calls (snd (upload_try_body gt S c p (case b of None \<Rightarrow> GCP_BUCKET_NAME s | Some x \<Rightarrow> x) s))"
  "gcs_client s = Some c \<Longrightarrow>
   world (snd (upload_to_gcs gt S p b s)) =
     world (snd (upload_try_body gt S c p (case b of None \<Rightarrow> GCP_BUCKET_NAME s | Some x \<Rightarrow> x) s))"
  by (simp_all add: enabled_upload_snd log_msg_def split: sum.splits)

lemma upload_globals:
  "gcs_client (snd (upload_to_gcs gt S p b s)) = gcs_client s \<and>
   GCP_BUCKET_NAME (snd (upload_to_gcs gt S p b s)) = GCP_BUCKET_NAME s"
proof (cases "gcs_client s")
  case None
  then show ?thesis by (simp add: disabled_upload_eq)
next
  case (Some c)
  then show ?thesis
    by (simp add: enabled_upload_snd try_body_globals log_msg_def split: sum.splits)
qed


text \<open>
  When the lookup, the bucket call and the blob call return, the upload is the transfer:
  same outcome, same effect on the remote service, one transfer in the trace.
\<close>

lemma upload_reaches_transfer:
  assumes "gcs_client s = Some c"
    and "gt p = Inr (ct, enc)"
    and "client_bucket S c (case b of None \<Rightarrow> GCP_BUCKET_NAME s | Some x \<Rightarrow> x) = Inr bk"
    and "bucket_blob S bk (basename p) = Inr bl"
  shows "fst (upload_to_gcs gt S p b s) =
           (case fst (upload_from_filename S (with_content_type S bl ct) p (world s)) of
              Inl e \<Rightarrow> Inl e
            | Inr _ \<Rightarrow> Inr (public_url S (with_content_type S bl ct)))"
    and "world (snd (upload_to_gcs gt S p b s)) =
           snd (upload_from_filename S (with_content_type S bl ct) p (world s))"
    and "filter is_transfer (sdk_calls (snd (upload_to_gcs gt S p b s))) =
           filter is_transfer (sdk_calls s) @ [Upload_from_filename p]"
  using assms
  by (simp_all add: enabled_upload_fst enabled_upload_fields try_body_returns
        upload_blob_transfer transfer_fst transfer_fields attach_fields
        start_fields guess_fields record_call_def)

lemma enabled_upload_calls:
  "gcs_client s = Some c \<Longrightarrow> gt p = Inr (ct, enc) \<Longrightarrow>
   sdk_calls (snd (upload_to_gcs gt S p b s)) =
     sdk_calls (snd (upload_blob S c p (case b of None \<Rightarrow> GCP_BUCKET_NAME s | Some x \<Rightarrow> x) ct
        (log_upload_start p ct (snd (guess_content_type gt p s)))))"
  by (simp add: enabled_upload_fields try_body_returns)

lemma enabled_upload_logger:
  assumes "gcs_client s = Some c" and "gt p = Inr (ct, enc)"
  shows "logger (snd (upload_to_gcs gt S p b s)) =
     logger s @
     (if truthy ct then []
      else [(WARNING, ''Could not determine content type for '' @ p @
                      '', this may default to application/octet-stream'')]) @
     [(INFO, ''Uploading file to Google Cloud Storage: '' @ p)] @
     (if truthy ct then [(INFO, ''Using content type: '' @ py_str ct)] else []) @
     (case fst (upload_to_gcs gt S p b s) of
        Inl e \<Rightarrow> [(ERROR, ''Error uploading file to GCS: '' @ exc_str e)]
      | Inr url \<Rightarrow> [(INFO, ''File uploaded successfully to GCS: '' @ url)])"
proof -
  let ?bn = "case b of None \<Rightarrow> GCP_BUCKET_NAME s | Some x \<Rightarrow> x"
  let ?s1 = "log_upload_start p ct (snd (guess_content_type gt p s))"
  have body: "upload_try_body gt S c p ?bn s = upload_blob S c p ?bn ct ?s1"
    using assms(2) by (simp add: try_body_returns)
  have start: "logger ?s1 =
     logger s @
     (if truthy ct then []
      else [(WARNING, ''Could not determine content type for '' @ p @
                      '', this may default to application/octet-stream'')]) @
     [(INFO, ''Uploading file to Google Cloud Storage: '' @ p)] @
     (if truthy ct then [(INFO, ''Using content type: '' @ py_str ct)] else [])"
    by (simp add: start_logger guess_logger [where gt = gt and p = p, OF assms(2)])
  have "logger (snd (upload_to_gcs gt S p b s)) =
     logger ?s1 @
     (case fst (upload_to_gcs gt S p b s) of
        Inl e \<Rightarrow> [(ERROR, ''Error uploading file to GCS: '' @ exc_str e)]
      | Inr url \<Rightarrow> [(INFO, ''File uploaded successfully to GCS: '' @ url)])"
    using assms(1) upload_blob_logger [of S c p ?bn ct ?s1]
    by (simp add: enabled_upload_snd enabled_upload_fst body log_msg_def split: sum.splits)
  with start show ?thesis by simp
qed

paragraph \<open>Sequences of calls\<close>

lemma run_op_globals:
  "gcs_client (snd (run_op A gt S x s)) = gcs_client s"
  "GCP_BUCKET_NAME (snd (run_op A gt S x s)) = GCP_BUCKET_NAME s"
  by (cases x; simp add: run_op_def split_beta upload_globals guess_fields)+

lemma run_op_upload_disabled:
  "gcs_client s = None \<Longrightarrow>
   fst (run_op A gt S (Call_upload p b) s) = Uploaded (Inl not_initialized)"
  by (simp add: run_op_def disabled_upload_eq)

lemma run_ops_Cons:
  "fst (run_ops A gt S (x # xs) s) =
     fst (run_op A gt S x s) # fst (run_ops A gt S xs (snd (run_op A gt S x s)))"
  "snd (run_ops A gt S (x # xs) s) = snd (run_ops A gt S xs (snd (run_op A gt S x s)))"
  by (simp_all add: split_beta)

lemma run_ops_globals:
  "gcs_client (snd (run_ops A gt S xs s)) = gcs_client s \<and>
   GCP_BUCKET_NAME (snd (run_ops A gt S xs s)) = GCP_BUCKET_NAME s"
proof (induction xs arbitrary: s)
  case Nil
  show ?case by simp
next
  case (Cons x xs)
  show ?case
    using Cons.IH [of "snd (run_op A gt S x s)"]
    by (simp only: run_ops_Cons run_op_globals)
qed

lemma run_ops_length: "length (fst (run_ops A gt S xs s)) = length xs"
proof (induction xs arbitrary: s)
  case Nil
  show ?case by simp
next
  case (Cons x xs)
  show ?case
    using Cons.IH [of "snd (run_op A gt S x s)"]
    by (simp only: run_ops_Cons list.size)
qed

lemma run_ops_uploads_disabled:
  "gcs_client s = None \<Longrightarrow> i < length xs \<Longrightarrow> xs ! i = Call_upload p b \<Longrightarrow>
   fst (run_ops A gt S xs s) ! i = Uploaded (Inl not_initialized)"
proof (induction xs arbitrary: s i)
  case Nil
  then show ?case by simp
next
  case (Cons x xs)
  show ?case
  proof (cases i)
    case 0
    with Cons.prems show ?thesis
      by (simp add: run_ops_Cons run_op_upload_disabled del: run_ops.simps)
  next
    case (Suc j)
    have "gcs_client (snd (run_op A gt S x s)) = None"
      using Cons.prems(1) by (simp add: run_op_globals)
    moreover have "j < length xs" "xs ! j = Call_upload p b"
      using Cons.prems Suc by simp_all
    ultimately have "fst (run_ops A gt S xs (snd (run_op A gt S x s))) ! j =
        Uploaded (Inl not_initialized)"
      by (rule Cons.IH)
    with Suc show ?thesis by (simp add: run_ops_Cons del: run_ops.simps)
  qed
qed

subsection \<open>Upload on a disabled gateway\<close>

text \<open>
  C1, as the specification words it: an upload on a disabled gateway fails with an error
  whose message is \<^verbatim>\<open>client not initialized\<close>. On the code the call does fail, but the
  message of the exception is another text.
\<close>

theorem disabled_upload_message_counterexample:
  "raised_message (fst (upload_to_gcs demo_mimetypes demo_storage ''/tmp/clip.mp4'' None
       (demo_process None))) =
     Some ''GCS client is not initialized. Skipping file upload.'' \<and>
   raised_message (fst (upload_to_gcs demo_mimetypes demo_storage ''/tmp/clip.mp4'' None
       (demo_process None))) \<noteq>
     Some ''client not initialized''"
  by (simp add: upload_to_gcs_def demo_process_def not_initialized_def raised_message_def)

text \<open>
  C1, amended: whenever \<^verbatim>\<open>gcs_client\<close> is \<^verbatim>\<open>None\<close>, for every path, every bucket argument
  and every library, \<^verbatim>\<open>upload_to_gcs\<close> raises \<^verbatim>\<open>ValueError\<close> with the message
  \<^verbatim>\<open>GCS client is not initialized. Skipping file upload.\<close> and leaves the process as it
  was: no call on a storage object, no change of the remote service, no log record.
\<close>

theorem upload_to_gcs_disabled:
  "gcs_client s = None \<Longrightarrow>
   upload_to_gcs gt S p b s =
     (Inl (PyException ''ValueError'' ''GCS client is not initialized. Skipping file upload.''), s)"
  by (simp add: disabled_upload_eq not_initialized_def)

theorem upload_to_gcs_disabled_witness:
  "gcs_client (demo_process None) = None \<and>
   upload_to_gcs demo_mimetypes demo_storage ''/tmp/clip.mp4'' None (demo_process None) =
     (Inl (PyException ''ValueError'' ''GCS client is not initialized. Skipping file upload.''),
      demo_process None) \<and>
   sdk_calls (demo_process None) = [] \<and> world (demo_process None) = []"
proof -
  have h: "gcs_client (demo_process None) = None"
    by (simp add: demo_process_def)
  from upload_to_gcs_disabled [OF h, of demo_mimetypes demo_storage "''/tmp/clip.mp4''" None] h
  show ?thesis by (simp add: demo_process_def)
qed

subsection \<open>Initialization never raises\<close>

text \<open>
  C2: for every environment and every behaviour of the libraries,
  \<^verbatim>\<open>initialize_gcp_client\<close> returns, and so does the import of the module. When the
  credentials are absent it returns \<^verbatim>\<open>None\<close>; when they are present and the JSON parser,
  the credentials constructor or the client constructor raises, it returns \<^verbatim>\<open>None\<close> as
  well.
\<close>

theorem initialize_gcp_client_never_raises:
  "(\<exists>client. fst (initialize_gcp_client A env lg) = Inr client) \<and>
   (\<exists>s. module_import A env w = Inr s) \<and>
   (getenv env ''GCP_SA_CREDENTIALS'' = None \<longrightarrow>
      fst (initialize_gcp_client A env lg) = Inr None) \<and>
   (\<forall>creds e. getenv env ''GCP_SA_CREDENTIALS'' = Some creds \<and> json_loads A creds = Inl e \<longrightarrow>
      fst (initialize_gcp_client A env lg) = Inr None) \<and>
   (\<forall>creds info e. getenv env ''GCP_SA_CREDENTIALS'' = Some creds \<and>
        json_loads A creds = Inr info \<and> from_service_account_info A info GCS_SCOPES = Inl e \<longrightarrow>
      fst (initialize_gcp_client A env lg) = Inr None) \<and>
   (\<forall>creds info k e. getenv env ''GCP_SA_CREDENTIALS'' = Some creds \<and>
        json_loads A creds = Inr info \<and> from_service_account_info A info GCS_SCOPES = Inr k \<and>
        storage_Client A k = Inl e \<longrightarrow>
      fst (initialize_gcp_client A env lg) = Inr None)"
proof -
  have failed: "fst (initialize_gcp_client A env lg) = Inr None"
    if "getenv env ''GCP_SA_CREDENTIALS'' = Some creds" and "build_client A creds = Inl e"
    for creds e
  proof (cases "creds = []")
    case True
    with that show ?thesis by (simp add: initialize_empty)
  next
    case False
    with that show ?thesis by (simp add: initialize_failed)
  qed
  show ?thesis
    using initialize_returns [of A env lg] module_import_returns [of A env w]
    by (auto simp: initialize_absent intro!: failed dest: build_client_raises)
qed

theorem initialize_gcp_client_never_raises_witness:
  "getenv [''GCP_SA_CREDENTIALS'' \<mapsto> ''not json''] ''GCP_SA_CREDENTIALS'' = Some ''not json'' \<and>
   json_loads demo_auth ''not json'' = Inl (PyException ''JSONDecodeError'' ''Expecting value'') \<and>
   fst (initialize_gcp_client demo_auth [''GCP_SA_CREDENTIALS'' \<mapsto> ''not json''] []) = Inr None \<and>
   getenv [''GCP_SA_CREDENTIALS'' \<mapsto> ''{}''] ''GCP_SA_CREDENTIALS'' = Some ''{}'' \<and>
   json_loads demo_auth ''{}'' = Inr ''{}'' \<and>
   from_service_account_info demo_auth ''{}'' GCS_SCOPES =
     Inl (PyException ''MalformedError'' ''missing fields'') \<and>
   fst (initialize_gcp_client demo_auth [''GCP_SA_CREDENTIALS'' \<mapsto> ''{}''] []) = Inr None \<and>
   getenv Map.empty ''GCP_SA_CREDENTIALS'' = None \<and>
   fst (initialize_gcp_client demo_auth Map.empty []) = Inr None"
proof -
  have h1: "getenv [''GCP_SA_CREDENTIALS'' \<mapsto> ''not json''] ''GCP_SA_CREDENTIALS'' = Some ''not json''"
    by (simp add: getenv_def)
  have h2: "json_loads demo_auth ''not json'' = Inl (PyException ''JSONDecodeError'' ''Expecting value'')"
    by (simp add: demo_auth_def)
  have h3: "getenv [''GCP_SA_CREDENTIALS'' \<mapsto> ''{}''] ''GCP_SA_CREDENTIALS'' = Some ''{}''"
    by (simp add: getenv_def)
  have h4: "json_loads demo_auth ''{}'' = Inr ''{}''"
    by (simp add: demo_auth_def)
  have h5: "from_service_account_info demo_auth ''{}'' GCS_SCOPES =
      Inl (PyException ''MalformedError'' ''missing fields'')"
    by (simp add: demo_auth_def)
  have h6: "getenv Map.empty ''GCP_SA_CREDENTIALS'' = None"
    by (simp add: getenv_def)
  from initialize_gcp_client_never_raises
         [of demo_auth "[''GCP_SA_CREDENTIALS'' \<mapsto> ''not json'']" "[]" "[] :: demo_world"] h1 h2
  have c1: "fst (initialize_gcp_client demo_auth [''GCP_SA_CREDENTIALS'' \<mapsto> ''not json''] []) = Inr None"
    by blast
  from initialize_gcp_client_never_raises
         [of demo_auth "[''GCP_SA_CREDENTIALS'' \<mapsto> ''{}'']" "[]" "[] :: demo_world"] h3 h4 h5
  have c2: "fst (initialize_gcp_client demo_auth [''GCP_SA_CREDENTIALS'' \<mapsto> ''{}''] []) = Inr None"
    by blast
  from initialize_gcp_client_never_raises [of demo_auth Map.empty "[]" "[] :: demo_world"] h6
  have c3: "fst (initialize_gcp_client demo_auth Map.empty []) = Inr None"
    by blast
  from h1 h2 h3 h4 h5 h6 c1 c2 c3 show ?thesis by simp
qed

subsection \<open>What initialization logs\<close>

text \<open>
  C10: when the credentials are absent from the environment, \<^verbatim>\<open>initialize_gcp_client\<close>
  returns \<^verbatim>\<open>None\<close> and writes nothing to the log. When the credentials are a non-empty
  text and the body of the \<^verbatim>\<open>try\<close> raises (a JSON text that does not parse is one such
  case), it returns \<^verbatim>\<open>None\<close> after one record of level error,
  \<^verbatim>\<open>Failed to initialize GCS client:\<close> followed by the text of the exception.
\<close>

theorem initialize_gcp_client_diagnostics:
  "(getenv env ''GCP_SA_CREDENTIALS'' = None \<longrightarrow>
      initialize_gcp_client A env lg = (Inr None, lg)) \<and>
   (\<forall>creds e. getenv env ''GCP_SA_CREDENTIALS'' = Some creds \<and> creds \<noteq> [] \<and>
        build_client A creds = Inl e \<longrightarrow>
      initialize_gcp_client A env lg =
        (Inr None, lg @ [(ERROR, ''Failed to initialize GCS client: '' @ exc_str e)])) \<and>
   (\<forall>creds e. json_loads A creds = Inl e \<longrightarrow> build_client A creds = Inl e)"
  by (simp add: initialize_absent initialize_failed build_client_raises)

theorem initialize_gcp_client_diagnostics_witness:
  "getenv Map.empty ''GCP_SA_CREDENTIALS'' = None \<and>
   initialize_gcp_client demo_auth Map.empty [] = (Inr None, []) \<and>
   getenv [''GCP_SA_CREDENTIALS'' \<mapsto> ''not json''] ''GCP_SA_CREDENTIALS'' = Some ''not json'' \<and>
   json_loads demo_auth ''not json'' = Inl (PyException ''JSONDecodeError'' ''Expecting value'') \<and>
   initialize_gcp_client demo_auth [''GCP_SA_CREDENTIALS'' \<mapsto> ''not json''] [] =
     (Inr None, [(ERROR, ''Failed to initialize GCS client: Expecting value'')])"
proof -
  have h1: "getenv Map.empty ''GCP_SA_CREDENTIALS'' = None"
    by (simp add: getenv_def)
  have h2: "getenv [''GCP_SA_CREDENTIALS'' \<mapsto> ''not json''] ''GCP_SA_CREDENTIALS'' = Some ''not json''"
    by (simp add: getenv_def)
  have h3: "json_loads demo_auth ''not json'' = Inl (PyException ''JSONDecodeError'' ''Expecting value'')"
    by (simp add: demo_auth_def)
  have h4: "''not json'' \<noteq> []" by simp
  from initialize_gcp_client_diagnostics [of Map.empty demo_auth "[]"] h1
  have c1: "initialize_gcp_client demo_auth Map.empty [] = (Inr None, [])"
    by blast
  note d = initialize_gcp_client_diagnostics
             [of "[''GCP_SA_CREDENTIALS'' \<mapsto> ''not json'']" demo_auth "[]"]
  from d h3 have h5: "build_client demo_auth ''not json'' =
      Inl (PyException ''JSONDecodeError'' ''Expecting value'')"
    by blast
  from d h2 h4 h5
  have "initialize_gcp_client demo_auth [''GCP_SA_CREDENTIALS'' \<mapsto> ''not json''] [] =
     (Inr None, [] @ [(ERROR, ''Failed to initialize GCS client: '' @
        exc_str (PyException ''JSONDecodeError'' ''Expecting value''))])"
    by blast
  then have c2: "initialize_gcp_client demo_auth [''GCP_SA_CREDENTIALS'' \<mapsto> ''not json''] [] =
     (Inr None, [(ERROR, ''Failed to initialize GCS client: Expecting value'')])"
    by simp
  from h1 h2 h3 c1 c2 show ?thesis by simp
qed

subsection \<open>Content-type inference\<close>

text \<open>
  C3, as the specification words it: content-type inference never raises. On the code
  line 69 is outside any \<^verbatim>\<open>try\<close>, so what the library lookup raises,
  \<^verbatim>\<open>guess_content_type\<close> raises; the lookup of the standard library does raise on some
  paths, such as \<^verbatim>\<open>//[x.pdf\<close>, which it reads as a URL with a malformed host.
\<close>

theorem guess_content_type_raises_counterexample:
  "demo_mimetypes ''//[x.pdf'' = Inl (PyException ''ValueError'' ''Invalid IPv6 URL'') \<and>
   guess_content_type demo_mimetypes ''//[x.pdf'' (demo_process None) =
     (Inl (PyException ''ValueError'' ''Invalid IPv6 URL''), demo_process None)"
  by (simp add: guess_content_type_def demo_mimetypes_def)

text \<open>
  C3, amended: \<^verbatim>\<open>guess_content_type\<close> raises exactly when the library lookup raises, the
  same exception, with nothing logged. Whenever the lookup returns a pair it returns the
  first component, a content type or \<^verbatim>\<open>None\<close>. When the lookup gives \<^verbatim>\<open>application/pdf\<close> for
  \<^verbatim>\<open>report.pdf\<close>, that is the result and nothing is logged. When the lookup gives no type,
  the result is \<^verbatim>\<open>None\<close>, returned and not raised, and one warning is logged.
\<close>

theorem guess_content_type_result:
  "(\<forall>ct enc. gt p = Inr (ct, enc) \<longrightarrow> fst (guess_content_type gt p s) = Inr ct) \<and>
   (\<forall>e. fst (guess_content_type gt p s) = Inl e \<longrightarrow> gt p = Inl e) \<and>
   (\<forall>e. gt p = Inl e \<longrightarrow> guess_content_type gt p s = (Inl e, s)) \<and>
   (\<forall>enc. gt ''report.pdf'' = Inr (Some ''application/pdf'', enc) \<longrightarrow>
      guess_content_type gt ''report.pdf'' s = (Inr (Some ''application/pdf''), s)) \<and>
   (\<forall>enc. gt p = Inr (None, enc) \<longrightarrow>
      guess_content_type gt p s =
        (Inr None,
         s\<lparr>logger := logger s @
              [(WARNING, ''Could not determine content type for '' @ p @
                         '', this may default to application/octet-stream'')]\<rparr>))"
  by (auto simp: guess_content_type_def log_msg_def truthy_def split: sum.splits)

theorem guess_content_type_result_witness:
  "demo_mimetypes ''report.pdf'' = Inr (Some ''application/pdf'', None) \<and>
   guess_content_type demo_mimetypes ''report.pdf'' (demo_process None) =
     (Inr (Some ''application/pdf''), demo_process None) \<and>
   demo_mimetypes ''data.unknownext'' = Inr (None, None) \<and>
   guess_content_type demo_mimetypes ''data.unknownext'' (demo_process None) =
     (Inr None,
      (demo_process None)\<lparr>logger :=
         [(WARNING, ''Could not determine content type for data.unknownext, this may default to application/octet-stream'')]\<rparr>) \<and>
   demo_mimetypes ''//[y.pdf'' = Inl (PyException ''ValueError'' ''Invalid IPv6 URL'') \<and>
   guess_content_type demo_mimetypes ''//[y.pdf'' (demo_process None) =
     (Inl (PyException ''ValueError'' ''Invalid IPv6 URL''), demo_process None)"
proof -
  have h1: "demo_mimetypes ''report.pdf'' = Inr (Some ''application/pdf'', None)"
    by (simp add: demo_mimetypes_def)
  have h2: "demo_mimetypes ''data.unknownext'' = Inr (None, None)"
    by (simp add: demo_mimetypes_def)
  have h3: "demo_mimetypes ''//[y.pdf'' = Inl (PyException ''ValueError'' ''Invalid IPv6 URL'')"
    by (simp add: demo_mimetypes_def)
  from guess_content_type_result [of demo_mimetypes "''report.pdf''" "demo_process None"] h1
  have c1: "guess_content_type demo_mimetypes ''report.pdf'' (demo_process None) =
     (Inr (Some ''application/pdf''), demo_process None)"
    by blast
  from guess_content_type_result [of demo_mimetypes "''data.unknownext''" "demo_process None"] h2
  have c2: "guess_content_type demo_mimetypes ''data.unknownext'' (demo_process None) =
     (Inr None,
      (demo_process None)\<lparr>logger := logger (demo_process None) @
         [(WARNING, ''Could not determine content type for '' @ ''data.unknownext'' @
                    '', this may default to application/octet-stream'')]\<rparr>)"
    by blast
  from guess_content_type_result [of demo_mimetypes "''//[y.pdf''" "demo_process None"] h3
  have c3: "guess_content_type demo_mimetypes ''//[y.pdf'' (demo_process None) =
     (Inl (PyException ''ValueError'' ''Invalid IPv6 URL''), demo_process None)"
    by blast
  have "logger (demo_process None) = []" by (simp add: demo_process_def)
  with h1 h2 h3 c1 c2 c3 show ?thesis by simp
qed

subsection \<open>The remote key\<close>



subsection \<open>The bucket\<close>

text \<open>
  C5: on an enabled gateway, when the lookup returns, the bucket asked of the client is
  the caller's bucket argument when there is one, and the module's \<^verbatim>\<open>GCP_BUCKET_NAME\<close>
  when there is none; passing no bucket is the same call as passing \<^verbatim>\<open>GCP_BUCKET_NAME\<close>.
  The transfer runs on the blob of that bucket, and the outcome of the upload is the
  outcome of that transfer. \<^verbatim>\<open>GCP_BUCKET_NAME\<close> is the value that the environment had when
  the module was imported.
\<close>

theorem upload_to_gcs_bucket_selection:
  assumes "gcs_client s = Some c" and "gt p = Inr (ct, enc)"
  shows "bucket_names (sdk_calls (snd (upload_to_gcs gt S p (Some bn) s))) =
           bucket_names (sdk_calls s) @ [bn] \<and>
         bucket_names (sdk_calls (snd (upload_to_gcs gt S p None s))) =
           bucket_names (sdk_calls s) @ [GCP_BUCKET_NAME s] \<and>
         upload_to_gcs gt S p None s = upload_to_gcs gt S p (Some (GCP_BUCKET_NAME s)) s \<and>
         (\<forall>bk bl. client_bucket S c bn = Inr bk \<and> bucket_blob S bk (basename p) = Inr bl \<longrightarrow>
            fst (upload_to_gcs gt S p (Some bn) s) =
              (case fst (upload_from_filename S (with_content_type S bl ct) p (world s)) of
                 Inl e \<Rightarrow> Inl e
               | Inr _ \<Rightarrow> Inr (public_url S (with_content_type S bl ct))) \<and>
            world (snd (upload_to_gcs gt S p (Some bn) s)) =
              snd (upload_from_filename S (with_content_type S bl ct) p (world s))) \<and>
         (\<forall>A env. module_import A env (world s) = Inr s \<longrightarrow>
            GCP_BUCKET_NAME s = getenv env ''GCP_BUCKET_NAME'')"
proof -
  have names: "bucket_names (sdk_calls (snd (upload_to_gcs gt S p b s))) =
      bucket_names (sdk_calls s) @ [case b of None \<Rightarrow> GCP_BUCKET_NAME s | Some x \<Rightarrow> x]" for b
    using assms
    by (simp add: enabled_upload_calls [where ct = ct and enc = enc] upload_blob_bucket_names
          start_fields guess_fields)
  have same: "upload_to_gcs gt S p None s = upload_to_gcs gt S p (Some (GCP_BUCKET_NAME s)) s"
    by (simp add: upload_to_gcs_def)
  have target: "fst (upload_to_gcs gt S p (Some bn) s) =
              (case fst (upload_from_filename S (with_content_type S bl ct) p (world s)) of
                 Inl e \<Rightarrow> Inl e
               | Inr _ \<Rightarrow> Inr (public_url S (with_content_type S bl ct))) \<and>
            world (snd (upload_to_gcs gt S p (Some bn) s)) =
              snd (upload_from_filename S (with_content_type S bl ct) p (world s))"
    if "client_bucket S c bn = Inr bk" and "bucket_blob S bk (basename p) = Inr bl" for bk bl
    using upload_reaches_transfer(1,2)
            [where s = s and c = c and gt = gt and p = p and ct = ct and enc = enc and S = S
               and b = "Some bn" and bk = bk and bl = bl]
          assms that
    by simp
  from names [of "Some bn"] names [of None] same target module_import_bucket
  show ?thesis by auto
qed

theorem upload_to_gcs_bucket_selection_witness:
  "gcs_client (demo_process (Some ''{key}'')) = Some ''{key}'' \<and>
   demo_mimetypes ''/tmp/report.pdf'' = Inr (Some ''application/pdf'', None) \<and>
   bucket_names (sdk_calls (snd (upload_to_gcs demo_mimetypes demo_storage ''/tmp/report.pdf''
     (Some (Some ''archive'')) (demo_process (Some ''{key}''))))) = [Some ''archive''] \<and>
   bucket_names (sdk_calls (snd (upload_to_gcs demo_mimetypes demo_storage ''/tmp/report.pdf''
     None (demo_process (Some ''{key}''))))) = [Some ''media''] \<and>
   client_bucket demo_storage ''{key}'' (Some ''archive'') = Inr (Some ''archive'') \<and>
   bucket_blob demo_storage (Some ''archive'') (basename ''/tmp/report.pdf'') =
     Inr (Some ''archive'', ''report.pdf'', None) \<and>
   fst (upload_to_gcs demo_mimetypes demo_storage ''/tmp/report.pdf''
     (Some (Some ''archive'')) (demo_process (Some ''{key}''))) =
     Inr ''https://storage.googleapis.com/archive/report.pdf'' \<and>
   world (snd (upload_to_gcs demo_mimetypes demo_storage ''/tmp/report.pdf''
     (Some (Some ''archive'')) (demo_process (Some ''{key}'')))) =
     [((Some ''archive'', ''report.pdf''), ''/tmp/report.pdf'')] \<and>
   module_import demo_auth
     [''GCP_BUCKET_NAME'' \<mapsto> ''media'', ''GCP_SA_CREDENTIALS'' \<mapsto> ''{key}'']
     (world (demo_process (Some ''{key}''))) = Inr (demo_process (Some ''{key}'')) \<and>
   GCP_BUCKET_NAME (demo_process (Some ''{key}'')) =
     getenv [''GCP_BUCKET_NAME'' \<mapsto> ''media'', ''GCP_SA_CREDENTIALS'' \<mapsto> ''{key}'']
       ''GCP_BUCKET_NAME''"
proof -
  let ?s = "demo_process (Some ''{key}'')"
  let ?p = "''/tmp/report.pdf''"
  let ?env = "[''GCP_BUCKET_NAME'' \<mapsto> ''media'', ''GCP_SA_CREDENTIALS'' \<mapsto> ''{key}'']"
  let ?bl = "(Some ''archive'', ''report.pdf'', None) :: demo_blob"
  let ?ct = "Some ''application/pdf''"
  have h1: "gcs_client ?s = Some ''{key}''"
    by (simp add: demo_process_def)
  have gp: "demo_mimetypes ?p = Inr (?ct, None)"
    by (simp add: demo_mimetypes_def)
  have bp: "basename ?p = ''report.pdf''" by (simp add: basename_def)
  have h2: "client_bucket demo_storage ''{key}'' (Some ''archive'') = Inr (Some ''archive'')"
    by (simp add: demo_storage_def)
  have h3: "bucket_blob demo_storage (Some ''archive'') (basename ?p) = Inr ?bl"
    by (simp add: demo_storage_def bp)
  have h4: "module_import demo_auth ?env (world ?s) = Inr ?s"
    by (simp add: module_import_def initialize_gcp_client_def build_client_def getenv_def
          demo_auth_def demo_process_def)
  have e: "sdk_calls ?s = []" "GCP_BUCKET_NAME ?s = Some ''media''" "world ?s = []"
    by (simp_all add: demo_process_def)
  have t: "upload_from_filename demo_storage (with_content_type demo_storage ?bl ?ct) ?p [] =
        (Inr (), [((Some ''archive'', ''report.pdf''), ?p)])"
    by (simp add: demo_defs with_content_type_def)
  have u: "public_url demo_storage (with_content_type demo_storage ?bl ?ct) =
        ''https://storage.googleapis.com/archive/report.pdf''"
    by (simp add: demo_defs with_content_type_def py_str_def)
  note k = upload_to_gcs_bucket_selection
             [where s = ?s and c = "''{key}''" and gt = demo_mimetypes and p = ?p and ct = ?ct
                and enc = None and S = demo_storage and bn = "Some ''archive''",
              OF h1 gp]
  from k have c1: "bucket_names (sdk_calls (snd (upload_to_gcs demo_mimetypes demo_storage ?p
       (Some (Some ''archive'')) ?s))) = [Some ''archive'']"
    by (elim conjE) (simp add: e)
  from k have c2: "bucket_names (sdk_calls (snd (upload_to_gcs demo_mimetypes demo_storage ?p
       None ?s))) = [Some ''media'']"
    by (elim conjE) (simp add: e)
  from k h2 h3 have "fst (upload_to_gcs demo_mimetypes demo_storage ?p (Some (Some ''archive'')) ?s) =
        (case fst (upload_from_filename demo_storage
              (with_content_type demo_storage ?bl ?ct) ?p (world ?s)) of
           Inl e \<Rightarrow> Inl e
         | Inr _ \<Rightarrow> Inr (public_url demo_storage (with_content_type demo_storage ?bl ?ct))) \<and>
      world (snd (upload_to_gcs demo_mimetypes demo_storage ?p (Some (Some ''archive'')) ?s)) =
        snd (upload_from_filename demo_storage
              (with_content_type demo_storage ?bl ?ct) ?p (world ?s))"
    by (elim conjE) blast
  then have c3: "fst (upload_to_gcs demo_mimetypes demo_storage ?p (Some (Some ''archive'')) ?s) =
        Inr ''https://storage.googleapis.com/archive/report.pdf''"
    and c4: "world (snd (upload_to_gcs demo_mimetypes demo_storage ?p (Some (Some ''archive'')) ?s)) =
        [((Some ''archive'', ''report.pdf''), ?p)]"
    by (simp_all only: e t u fst_conv snd_conv sum.case)
  from k h4 have c5: "GCP_BUCKET_NAME ?s = getenv ?env ''GCP_BUCKET_NAME''"
    by (elim conjE) blast
  from h1 gp h2 h3 h4 c1 c2 c3 c4 c5 show ?thesis by (intro conjI)
qed

subsection \<open>A transfer that fails\<close>

text \<open>
  C6: on an enabled gateway, when the lookup, the bucket call and the blob call return and
  \<^verbatim>\<open>blob.upload_from_filename\<close> raises \<open>e\<close>, the upload raises that same \<open>e\<close>. The log gains
  the records of the start of the upload and then, last, one record of level error,
  \<^verbatim>\<open>Error uploading file to GCS:\<close> followed by the text of \<open>e\<close>. The trace gains one
  transfer and no second one, and the remote service is left as the failed transfer left
  it.
\<close>

theorem upload_to_gcs_transfer_error:
  assumes "gcs_client s = Some c"
    and "gt p = Inr (ct, enc)"
    and "client_bucket S c (case b of None \<Rightarrow> GCP_BUCKET_NAME s | Some x \<Rightarrow> x) = Inr bk"
    and "bucket_blob S bk (basename p) = Inr bl"
    and "upload_from_filename S (with_content_type S bl ct) p (world s) = (Inl e, w')"
  shows "fst (upload_to_gcs gt S p b s) = Inl e \<and>
         logger (snd (upload_to_gcs gt S p b s)) =
           logger s @
           (if truthy ct then []
            else [(WARNING, ''Could not determine content type for '' @ p @
                            '', this may default to application/octet-stream'')]) @
           [(INFO, ''Uploading file to Google Cloud Storage: '' @ p)] @
           (if truthy ct then [(INFO, ''Using content type: '' @ py_str ct)] else []) @
           [(ERROR, ''Error uploading file to GCS: '' @ exc_str e)] \<and>
         filter is_transfer (sdk_calls (snd (upload_to_gcs gt S p b s))) =
           filter is_transfer (sdk_calls s) @ [Upload_from_filename p] \<and>
         world (snd (upload_to_gcs gt S p b s)) = w'"
proof -
  note reach = upload_reaches_transfer
                 [where gt = gt and p = p and ct = ct and enc = enc, OF assms(1,2,3,4)]
  have r: "fst (upload_to_gcs gt S p b s) = Inl e"
    using reach(1) assms(5) by simp
  have w: "world (snd (upload_to_gcs gt S p b s)) = w'"
    using reach(2) assms(5) by simp
  have l: "logger (snd (upload_to_gcs gt S p b s)) =
           logger s @
           (if truthy ct then []
            else [(WARNING, ''Could not determine content type for '' @ p @
                            '', this may default to application/octet-stream'')]) @
           [(INFO, ''Uploading file to Google Cloud Storage: '' @ p)] @
           (if truthy ct then [(INFO, ''Using content type: '' @ py_str ct)] else []) @
           [(ERROR, ''Error uploading file to GCS: '' @ exc_str e)]"
    using enabled_upload_logger [where gt = gt and p = p and ct = ct and enc = enc,
            OF assms(1,2), of S b] r
    by simp
  from r w l reach(3) show ?thesis by simp
qed

theorem upload_to_gcs_transfer_error_witness:
  "gcs_client (demo_process (Some ''client'')) = Some ''client'' \<and>
   demo_mimetypes ''/tmp/clip.mp4'' = Inr (None, None) \<and>
   client_bucket demo_storage ''client''
     (case Some (Some ''locked'') of None \<Rightarrow> GCP_BUCKET_NAME (demo_process (Some ''client''))
      | Some x \<Rightarrow> x) = Inr (Some ''locked'') \<and>
   bucket_blob demo_storage (Some ''locked'') (basename ''/tmp/clip.mp4'') =
     Inr (Some ''locked'', ''clip.mp4'', None) \<and>
   upload_from_filename demo_storage
     (with_content_type demo_storage (Some ''locked'', ''clip.mp4'', None) None)
     ''/tmp/clip.mp4'' (world (demo_process (Some ''client''))) =
     (Inl (PyException ''Forbidden'' ''403 access denied''), []) \<and>
   fst (upload_to_gcs demo_mimetypes demo_storage ''/tmp/clip.mp4'' (Some (Some ''locked''))
     (demo_process (Some ''client''))) = Inl (PyException ''Forbidden'' ''403 access denied'') \<and>
   logger (snd (upload_to_gcs demo_mimetypes demo_storage ''/tmp/clip.mp4''
     (Some (Some ''locked'')) (demo_process (Some ''client'')))) =
     [(WARNING, ''Could not determine content type for /tmp/clip.mp4, this may default to application/octet-stream''),
      (INFO, ''Uploading file to Google Cloud Storage: /tmp/clip.mp4''),
      (ERROR, ''Error uploading file to GCS: 403 access denied'')] \<and>
   filter is_transfer (sdk_calls (snd (upload_to_gcs demo_mimetypes demo_storage ''/tmp/clip.mp4''
     (Some (Some ''locked'')) (demo_process (Some ''client''))))) =
     [Upload_from_filename ''/tmp/clip.mp4''] \<and>
   world (snd (upload_to_gcs demo_mimetypes demo_storage ''/tmp/clip.mp4''
     (Some (Some ''locked'')) (demo_process (Some ''client'')))) = []"
proof -
  let ?s = "demo_process (Some ''client'')"
  let ?p = "''/tmp/clip.mp4''"
  let ?bl = "(Some ''locked'', ''clip.mp4'', None) :: demo_blob"
  have h1: "gcs_client ?s = Some ''client''"
    by (simp add: demo_process_def)
  have gp: "demo_mimetypes ?p = Inr (None, None)"
    by (simp add: demo_mimetypes_def)
  have h2: "client_bucket demo_storage ''client''
     (case Some (Some ''locked'') of None \<Rightarrow> GCP_BUCKET_NAME ?s | Some x \<Rightarrow> x) =
     Inr (Some ''locked'')"
    by (simp add: demo_storage_def)
  have bp: "basename ?p = ''clip.mp4''" by (simp add: basename_def)
  have h3: "bucket_blob demo_storage (Some ''locked'') (basename ?p) = Inr ?bl"
    by (simp add: demo_storage_def bp)
  have h4: "upload_from_filename demo_storage
     (with_content_type demo_storage ?bl None) ?p (world ?s) =
     (Inl (PyException ''Forbidden'' ''403 access denied''), [])"
    by (simp add: demo_defs with_content_type_def)
  have e: "sdk_calls ?s = []" "logger ?s = []" by (simp_all add: demo_process_def)
  note k = upload_to_gcs_transfer_error
             [where s = ?s and c = "''client''" and gt = demo_mimetypes and p = ?p
                and ct = None and enc = None and S = demo_storage
                and b = "Some (Some ''locked'')" and bk = "Some ''locked''" and bl = ?bl
                and e = "PyException ''Forbidden'' ''403 access denied''" and w' = "[]"]
  from k [OF h1 gp h2 h3 h4] e h1 gp h2 h3 h4
  show ?thesis by (simp add: truthy_def)
qed

subsection \<open>What failures log\<close>




subsection \<open>The globals are never reassigned\<close>

text \<open>
  C9: over every sequence of calls of the module's functions, in every environment and
  with every behaviour of the libraries, \<^verbatim>\<open>gcs_client\<close> and \<^verbatim>\<open>GCP_BUCKET_NAME\<close> keep the
  values they had after the import; a later call of \<^verbatim>\<open>initialize_gcp_client\<close> returns a
  client to its caller and assigns nothing. When \<^verbatim>\<open>gcs_client\<close> is \<^verbatim>\<open>None\<close> at the start,
  every upload of the sequence raises the \<^verbatim>\<open>ValueError\<close> of the disabled gateway.
\<close>

theorem run_ops_globals_invariant:
  "gcs_client (snd (run_ops A gt S xs s)) = gcs_client s \<and>
   GCP_BUCKET_NAME (snd (run_ops A gt S xs s)) = GCP_BUCKET_NAME s \<and>
   length (fst (run_ops A gt S xs s)) = length xs \<and>
   (gcs_client s = None \<longrightarrow>
      (\<forall>i p b. i < length xs \<and> xs ! i = Call_upload p b \<longrightarrow>
         fst (run_ops A gt S xs s) ! i = Uploaded (Inl not_initialized)))"
  using run_ops_globals [of A gt S xs s] run_ops_length [of A gt S xs s]
    run_ops_uploads_disabled [of s _ xs _ _ A gt S]
  by blast

theorem run_ops_globals_invariant_witness:
  "gcs_client (demo_process None) = None \<and>
   (0::nat) < length [Call_upload ''/tmp/clip.mp4'' None,
                      Call_initialize [''GCP_SA_CREDENTIALS'' \<mapsto> ''{key}''],
                      Call_upload ''/tmp/report.pdf'' (Some (Some ''archive''))] \<and>
   (2::nat) < length [Call_upload ''/tmp/clip.mp4'' None,
                      Call_initialize [''GCP_SA_CREDENTIALS'' \<mapsto> ''{key}''],
                      Call_upload ''/tmp/report.pdf'' (Some (Some ''archive''))] \<and>
   fst (run_ops demo_auth demo_mimetypes demo_storage
          [Call_upload ''/tmp/clip.mp4'' None,
           Call_initialize [''GCP_SA_CREDENTIALS'' \<mapsto> ''{key}''],
           Call_upload ''/tmp/report.pdf'' (Some (Some ''archive''))] (demo_process None)) ! 0 =
     Uploaded (Inl not_initialized) \<and>
   fst (run_ops demo_auth demo_mimetypes demo_storage
          [Call_upload ''/tmp/clip.mp4'' None,
           Call_initialize [''GCP_SA_CREDENTIALS'' \<mapsto> ''{key}''],
           Call_upload ''/tmp/report.pdf'' (Some (Some ''archive''))] (demo_process None)) ! 1 =
     Initialized (Inr (Some ''{key}'')) \<and>
   fst (run_ops demo_auth demo_mimetypes demo_storage
          [Call_upload ''/tmp/clip.mp4'' None,
           Call_initialize [''GCP_SA_CREDENTIALS'' \<mapsto> ''{key}''],
           Call_upload ''/tmp/report.pdf'' (Some (Some ''archive''))] (demo_process None)) ! 2 =
     Uploaded (Inl not_initialized) \<and>
   gcs_client (snd (run_ops demo_auth demo_mimetypes demo_storage
          [Call_upload ''/tmp/clip.mp4'' None,
           Call_initialize [''GCP_SA_CREDENTIALS'' \<mapsto> ''{key}''],
           Call_upload ''/tmp/report.pdf'' (Some (Some ''archive''))] (demo_process None))) = None"
proof -
  let ?xs = "[Call_upload ''/tmp/clip.mp4'' None,
              Call_initialize [''GCP_SA_CREDENTIALS'' \<mapsto> ''{key}''],
              Call_upload ''/tmp/report.pdf'' (Some (Some ''archive''))]"
  have h1: "gcs_client (demo_process None) = None" by (simp add: demo_process_def)
  have h2: "(0::nat) < length ?xs" "?xs ! 0 = Call_upload ''/tmp/clip.mp4'' None"
    by simp_all
  have h3: "(2::nat) < length ?xs" "?xs ! 2 = Call_upload ''/tmp/report.pdf'' (Some (Some ''archive''))"
    by simp_all
  have mid: "fst (run_ops demo_auth demo_mimetypes demo_storage ?xs (demo_process None)) ! 1 =
      Initialized (Inr (Some ''{key}''))"
    by (simp add: run_op_def upload_to_gcs_def initialize_gcp_client_def build_client_def
          getenv_def demo_auth_def demo_process_def GCS_SCOPES_def)
  note k = run_ops_globals_invariant [of demo_auth demo_mimetypes demo_storage ?xs "demo_process None"]
  from k h1 have all: "\<forall>i p b. i < length ?xs \<and> ?xs ! i = Call_upload p b \<longrightarrow>
      fst (run_ops demo_auth demo_mimetypes demo_storage ?xs (demo_process None)) ! i =
        Uploaded (Inl not_initialized)"
    by (elim conjE) blast
  from all h2 have c1: "fst (run_ops demo_auth demo_mimetypes demo_storage ?xs (demo_process None)) ! 0 =
      Uploaded (Inl not_initialized)"
    by blast
  from all h3 have c2: "fst (run_ops demo_auth demo_mimetypes demo_storage ?xs (demo_process None)) ! 2 =
      Uploaded (Inl not_initialized)"
    by blast
  from k h1 have c3: "gcs_client (snd (run_ops demo_auth demo_mimetypes demo_storage ?xs
      (demo_process None))) = None"
    by (elim conjE) simp
  from h1 h2(1) h3(1) c1 mid c2 c3 show ?thesis by (intro conjI)
qed

end
